theory Spec2Isabelle
  imports Complex_Main "HOL-Library.Log_Nat"
begin

section \<open>Float64 arithmetic\<close>

text \<open>
  The script computes with float64 values. A finite value is modelled by the rational it
  denotes, and every arithmetic operation rounds its exact result to the nearest float64
  value, a tie going to the value with the even significand (\<open>fl\<close> below), as IEEE 754
  binary64 does: 53 significant bits, subnormal values below \<open>2^-1022\<close>, overflow to an
  infinite value from \<open>2^1024\<close> on. Infinite values and NaN are values of their own.
  The sign of a zero is not kept: in the lines modelled here it could only change the sign
  of an infinite quotient, and \<open>round\<close> raises the same exception for both signs.
\<close>

datatype npfloat = Finite rat | PInf | NInf | NaN

text \<open>Rounding to the nearest integer, a tie going to the even neighbour.\<close>

definition round_half_even :: "rat \<Rightarrow> int" where
  "round_half_even q =
     (let f = \<lfloor>q\<rfloor>; r = q - of_int f
      in if r < 1 / 2 then f
         else if 1 / 2 < r then f + 1
         else if even f then f else f + 1)"

text \<open>The power \<open>2^k\<close> for an integer \<open>k\<close> of either sign.\<close>

definition pow2 :: "int \<Rightarrow> rat" where
  "pow2 k = (if 0 \<le> k then 2 ^ nat k else 1 / 2 ^ nat (- k))"

text \<open>
  The binary exponent of \<open>q \<noteq> 0\<close>: the \<open>e\<close> with \<open>2^e \<le> |q| < 2^(e+1)\<close>. With
  \<open>|q| = a / b\<close> and \<open>k\<close> the difference of the bit lengths of \<open>a\<close> and \<open>b\<close>, it is
  \<open>k\<close> or \<open>k - 1\<close>.
\<close>

definition exponent :: "rat \<Rightarrow> int" where
  "exponent q =
     (let (a, b) = quotient_of \<bar>q\<bar>; k = bitlen a - bitlen b
      in if pow2 k \<le> \<bar>q\<bar> then k else k - 1)"

text \<open>
  Rounding an exact result to float64. The spacing of the float64 values around \<open>q\<close> is
  \<open>2^(e - 52)\<close>, with \<open>e\<close> the exponent of \<open>q\<close> and at least \<open>-1022\<close>; \<open>q\<close> is
  rounded to a multiple of it. A result of magnitude \<open>2^1024\<close> or more is infinite.
\<close>

definition fl :: "rat \<Rightarrow> npfloat" where
  "fl q =
     (if q = 0 then Finite 0
      else
        let ulp = pow2 (max (exponent q) (- 1022) - 52);
            r = of_int (round_half_even (q / ulp)) * ulp
        in if r \<noteq> 0 \<and> 1024 \<le> exponent r then (if 0 < q then PInf else NInf)
           else Finite r)"


text \<open>Float64 addition and division, with the IEEE rules for infinite values and NaN.\<close>

fun fadd :: "npfloat \<Rightarrow> npfloat \<Rightarrow> npfloat" where
  "fadd (Finite a) (Finite b) = fl (a + b)"
| "fadd NaN _ = NaN"
| "fadd _ NaN = NaN"
| "fadd PInf NInf = NaN"
| "fadd NInf PInf = NaN"
| "fadd PInf _ = PInf"
| "fadd _ PInf = PInf"
| "fadd NInf _ = NInf"
| "fadd _ NInf = NInf"

text \<open>
  Division of numpy scalars: a division by zero gives an infinite value or NaN (numpy only
  warns), it raises nothing.
\<close>

fun fdiv :: "npfloat \<Rightarrow> npfloat \<Rightarrow> npfloat" where
  "fdiv (Finite a) (Finite b) =
     (if b = 0 then (if a = 0 then NaN else if 0 < a then PInf else NInf) else fl (a / b))"
| "fdiv NaN _ = NaN"
| "fdiv _ NaN = NaN"
| "fdiv (Finite a) _ = Finite 0"
| "fdiv PInf (Finite b) = (if 0 \<le> b then PInf else NInf)"
| "fdiv NInf (Finite b) = (if 0 \<le> b then NInf else PInf)"
| "fdiv _ _ = NaN"

section \<open>Exceptions\<close>

text \<open>
  The exceptions the modelled lines can raise. The two \<open>ValueError\<close>s that
  \<open>filter_signal\<close> raises itself are told apart by their message; the message of the
  second is formatted from \<open>fs\<close>, \<open>lowcut\<close> and \<open>highcut\<close>, which it carries here.
  \<open>Cannot_convert_NaN_to_integer\<close> and \<open>OverflowError\<close> are what \<open>round\<close>
  raises on NaN and on an infinite value.
\<close>

datatype message =
    Unsupported_signal_type
  | Invalid_filter_range int rat rat
  | Cannot_convert_NaN_to_integer

datatype py_error = ValueError message | OverflowError | ZeroDivisionError

text \<open>
  The error kinds that the specification names for the estimation and the filter design,
  and the kind that an exception of the script reports. A kind is reported by one of the
  script's own \<open>raise\<close> statements, whose message names the condition (lines 79 and
  85). An exception that comes out of a library call or of the interpreter reports none:
  the script has no \<open>raise\<close> for too few timestamps or for a degenerate timing.
\<close>

datatype error_kind =
    UnsupportedSignalTypeError
  | InvalidFilterRangeError
  | InsufficientDataError
  | DegenerateTimingError

fun reported_kind :: "py_error \<Rightarrow> error_kind option" where
  "reported_kind (ValueError Unsupported_signal_type) = Some UnsupportedSignalTypeError"
| "reported_kind (ValueError (Invalid_filter_range fs lowcut highcut)) = Some InvalidFilterRangeError"
| "reported_kind _ = None"

section \<open>Estimating the sampling frequency\<close>

text \<open>
  \<open>np.diff\<close>: the float64 differences \<open>a[i+1] - a[i]\<close>; empty for fewer than two
  entries. The timestamps are finite float64 values, given as the rationals they denote.
\<close>

fun np_diff :: "rat list \<Rightarrow> npfloat list" where
  "np_diff (x # y # xs) = fl (y - x) # np_diff (y # xs)"
| "np_diff _ = []"

text \<open>
  \<open>np.mean\<close> adds the array up with \<open>np.add.reduce\<close> and divides by the count. For
  a contiguous float64 array numpy adds pairwise, which rounds differently from adding in
  order once there are eight elements or more:
  \<^item> fewer than 8 elements are added in order, starting from zero (\<open>sum_seq\<close>);
  \<^item> from 8 to 128 elements, eight running sums start as the first eight elements, each
    full block of eight that follows is added to them element by element
    (\<open>add_blocks\<close>), the eight sums are combined as
    \<open>((r0 + r1) + (r2 + r3)) + ((r4 + r5) + (r6 + r7))\<close> (\<open>combine8\<close>), and the
    elements left over are added in order;
  \<^item> more than 128 elements are split at half the length rounded down to a multiple of
    eight (\<open>half8\<close>), and the sums of the two parts are added.
\<close>

fun sum_seq :: "npfloat \<Rightarrow> npfloat list \<Rightarrow> npfloat" where
  "sum_seq res [] = res"
| "sum_seq res (x # xs) = sum_seq (fadd res x) xs"

fun add_blocks :: "npfloat list \<Rightarrow> npfloat list \<Rightarrow> npfloat list \<times> npfloat list" where
  "add_blocks r xs =
     (if length xs < 8 then (r, xs)
      else add_blocks (map2 fadd r (take 8 xs)) (drop 8 xs))"

declare add_blocks.simps [simp del]

definition combine8 :: "npfloat list \<Rightarrow> npfloat" where
  "combine8 r =
     fadd (fadd (fadd (r ! 0) (r ! 1)) (fadd (r ! 2) (r ! 3)))
          (fadd (fadd (r ! 4) (r ! 5)) (fadd (r ! 6) (r ! 7)))"

definition half8 :: "nat \<Rightarrow> nat" where
  "half8 n = n div 2 - (n div 2) mod 8"

function pairwise_sum :: "npfloat list \<Rightarrow> npfloat" where
  "pairwise_sum a =
     (if length a < 8 then sum_seq (Finite 0) a
      else if length a \<le> 128 then
        (case add_blocks (take 8 a) (drop 8 a) of (r, rest) \<Rightarrow> sum_seq (combine8 r) rest)
      else fadd (pairwise_sum (take (half8 (length a)) a))
                (pairwise_sum (drop (half8 (length a)) a)))"
  by pat_completeness auto
termination
  by (relation "measure length") (auto simp: half8_def)

declare pairwise_sum.simps [simp del]

text \<open>
  \<open>np.mean\<close>: the reduction starts from zero, and the sum is divided by the count. For
  an empty array this is \<open>0.0 / 0\<close>, which is NaN.
\<close>

definition np_mean :: "npfloat list \<Rightarrow> npfloat" where
  "np_mean a = fdiv (fadd (Finite 0) (pairwise_sum a)) (fl (of_nat (length a)))"

text \<open>
  \<open>round(x)\<close> with no digits: an \<open>int\<close>, or the exception of converting NaN or an
  infinite value to an integer.
\<close>

definition py_round :: "npfloat \<Rightarrow> py_error + int" where
  "py_round x =
     (case x of
        NaN \<Rightarrow> Inl (ValueError Cannot_convert_NaN_to_integer)
      | PInf \<Rightarrow> Inl OverflowError
      | NInf \<Rightarrow> Inl OverflowError
      | Finite q \<Rightarrow> Inr (round_half_even q))"

text \<open>
  Lines 113 and 114 of \<open>main\<close>:
  \<^verbatim>\<open>time_diffs = np.diff(df['Time_sec'])\<close>,
  \<^verbatim>\<open>fs = round(1 / np.mean(time_diffs))\<close>.
\<close>

definition estimate_fs :: "rat list \<Rightarrow> py_error + int" where
  "estimate_fs time_sec =
     (let time_diffs = np_diff time_sec
      in py_round (fdiv (Finite 1) (np_mean time_diffs)))"



text \<open>The float64 values of some decimals used below.\<close>

abbreviation double_0_01 :: rat where
  "double_0_01 \<equiv> 5764607523034235 / 576460752303423488"

abbreviation double_0_02 :: rat where
  "double_0_02 \<equiv> 5764607523034235 / 288230376151711744"

abbreviation double_0_03 :: rat where
  "double_0_03 \<equiv> 1080863910568919 / 36028797018963968"

abbreviation double_0_1 :: rat where
  "double_0_1 \<equiv> 3602879701896397 / 36028797018963968"

abbreviation double_0_2 :: rat where
  "double_0_2 \<equiv> 3602879701896397 / 18014398509481984"

abbreviation double_0_000128 :: rat where
  "double_0_000128 \<equiv> 4722366482869645 / 36893488147419103232"

section \<open>The bandpass filter\<close>

text \<open>
  The \<open>if\<close>/\<open>elif\<close>/\<open>else\<close> of \<open>filter_signal\<close> that chooses
  \<open>(lowcut, highcut)\<close>. The comparison is Python's string equality.
\<close>

definition band :: "string \<Rightarrow> py_error + rat \<times> rat" where
  "band signal_type =
     (if signal_type = ''ecg'' then Inr (1 / 2, 45)
      else if signal_type = ''eeg'' then Inr (1, 30)
      else Inl (ValueError Unsupported_signal_type))"

text \<open>The default of the parameter \<open>order\<close>.\<close>

definition default_order :: nat where
  "default_order = 4"

text \<open>
  \<open>filter_signal(data, fs, signal_type, order)\<close>. The two scipy functions are
  parameters: \<open>butter order [low, high]\<close> stands for the coefficients
  \<open>butter(order, [low, high], btype='band')\<close>, and \<open>filtfilt c data\<close> for the outcome
  of \<open>filtfilt(b, a, data)\<close>, whatever scipy makes of it. \<open>Inr\<close> says that
  control reached the scipy calls; \<open>Inl\<close> is an exception raised before them.
  \<open>fs\<close> is the \<open>int\<close> that \<open>round\<close> returned, so \<open>nyq = 0.5 * fs\<close> is a
  Python float, and dividing by it raises \<open>ZeroDivisionError\<close> when it is zero.
\<close>

definition filter_signal ::
  "(nat \<Rightarrow> rat list \<Rightarrow> 'c) \<Rightarrow> ('c \<Rightarrow> 'd \<Rightarrow> 'r) \<Rightarrow> 'd \<Rightarrow> int \<Rightarrow> string \<Rightarrow> nat \<Rightarrow> py_error + 'r"
where
  "filter_signal butter filtfilt data fs signal_type order =
     (let nyq = (1 / 2) * of_int fs
      in case band signal_type of
           Inl e \<Rightarrow> Inl e
         | Inr (lowcut, highcut) \<Rightarrow>
             if nyq = 0 then Inl ZeroDivisionError
             else
               let low = lowcut / nyq; high = highcut / nyq
               in if \<not> (0 < low \<and> low < high \<and> high < 1)
                  then Inl (ValueError (Invalid_filter_range fs lowcut highcut))
                  else Inr (filtfilt (butter order [low, high]) data))"

text \<open>
  Lines 113 to 118 of \<open>main\<close>: the estimate, then the filter with the default order.
  An exception of the first step ends the run.
\<close>

definition estimate_and_filter ::
  "(nat \<Rightarrow> rat list \<Rightarrow> 'c) \<Rightarrow> ('c \<Rightarrow> 'd \<Rightarrow> 'r) \<Rightarrow> rat list \<Rightarrow> 'd \<Rightarrow> string \<Rightarrow> py_error + int \<times> 'r"
where
  "estimate_and_filter butter filtfilt time_sec signal signal_type =
     (case estimate_fs time_sec of
        Inl e \<Rightarrow> Inl e
      | Inr fs \<Rightarrow>
          (case filter_signal butter filtfilt signal fs signal_type default_order of
             Inl e \<Rightarrow> Inl e
           | Inr filtered \<Rightarrow> Inr (fs, filtered)))"

section \<open>Properties of the float64 operations\<close>

lemma pow2_pos: "0 < pow2 k"
  by (simp add: pow2_def)


lemma round_half_even_of_int: "round_half_even (of_int z) = z"
  by (simp add: round_half_even_def)

lemma round_half_even_nonpos: "q \<le> 0 \<Longrightarrow> round_half_even q \<le> 0"
proof (cases "q = 0")
  case True
  then show ?thesis using round_half_even_of_int [of 0] by simp
next
  case False
  assume "q \<le> 0"
  with False have "\<lfloor>q\<rfloor> < 0" by simp
  then show ?thesis by (simp add: round_half_even_def Let_def)
qed

lemma round_half_even_ties:
  "round_half_even (1 / 2) = 0" "round_half_even (3 / 2) = 2" "round_half_even (5 / 2) = 2"
  "round_half_even (- 1 / 2) = 0" "round_half_even (- 3 / 2) = - 2"
  "round_half_even (8 / 3) = 3" "round_half_even (- 8 / 3) = - 3"
  by code_simp+

text \<open>The decimals 0.01, 0.02, 0.03, 0.1, 0.2 and 0.000128 round to the values named above.\<close>

lemma decimal_doubles:
  "fl (1 / 100) = Finite double_0_01" "fl (2 / 100) = Finite double_0_02"
  "fl (3 / 100) = Finite double_0_03" "fl (1 / 10) = Finite double_0_1"
  "fl (2 / 10) = Finite double_0_2" "fl (128 / 1000000) = Finite double_0_000128"
  by code_simp+

text \<open>The rounding of a negative number is negative or zero, or the negative infinite value.\<close>

lemma fl_negative:
  assumes "q < 0"
  shows "fl q = NInf \<or> (\<exists>r\<le>0. fl q = Finite r)"
proof -
  let ?u = "pow2 (max (exponent q) (- 1022) - 52)"
  let ?r = "of_int (round_half_even (q / ?u)) * ?u"
  have u: "0 < ?u" by (rule pow2_pos)
  with assms have "q / ?u \<le> 0" by (simp add: divide_le_0_iff)
  then have "round_half_even (q / ?u) \<le> 0" by (rule round_half_even_nonpos)
  with u have "?r \<le> 0" by (simp add: mult_le_0_iff)
  with assms show ?thesis
    by (auto simp: fl_def Let_def)
qed



section \<open>Adding up equal differences\<close>











lemma length_np_diff: "length (np_diff ts) = length ts - 1"
  by (induction ts rule: np_diff.induct) simp_all

lemma np_diff_empty_iff: "(np_diff ts = []) = (length ts < 2)"
  by (induction ts rule: np_diff.induct) simp_all



section \<open>Properties of the estimation\<close>

text \<open>
  Two runs in which the rounding of the float64 operations decides the result. In the
  first the differences add up to 1.39e-17 and not to zero, so the mean is not zero and
  an integer is returned. In the second the quotient \<open>1 / 0.000128\<close> is rounded to
  7812.5 and this tie goes to the even 7812.
\<close>

lemma estimate_fs_cancellation:
  "estimate_fs [double_0_1, double_0_2, double_0_01, double_0_1] = Inr 216172782113783808"
  by code_simp

lemma estimate_fs_tie:
  "fdiv (Finite 1) (Finite double_0_000128) = Finite (15625 / 2)"
  "estimate_fs [0, double_0_000128] = Inr 7812"
  by code_simp+




text \<open>
  C3, as the code has it. For fewer than two timestamps the estimation fails, and always
  in the same way: there is no difference to average, the mean is NaN, and \<open>round\<close>
  raises the \<open>ValueError\<close> of converting NaN to an integer. This exception reports no
  error kind of the script, and the filter is not reached.
\<close>

theorem estimate_fs_too_short:
  assumes "length ts < 2"
  shows "estimate_fs ts = Inl (ValueError Cannot_convert_NaN_to_integer)
       \<and> reported_kind (ValueError Cannot_convert_NaN_to_integer) = None
       \<and> estimate_and_filter butter filtfilt ts signal signal_type
           = Inl (ValueError Cannot_convert_NaN_to_integer)"
proof -
  from assms have "np_diff ts = []" by (simp add: np_diff_empty_iff)
  moreover have "np_mean [] = NaN"
    by (subst np_mean_def, subst pairwise_sum.simps) (simp add: fl_def)
  ultimately have "estimate_fs ts = Inl (ValueError Cannot_convert_NaN_to_integer)"
    by (simp add: estimate_fs_def py_round_def)
  then show ?thesis by (simp add: estimate_and_filter_def)
qed

theorem estimate_fs_too_short_witness:
  "length [5 :: rat] < 2
   \<and> estimate_fs [5] = Inl (ValueError Cannot_convert_NaN_to_integer)
   \<and> estimate_and_filter (\<lambda>n w. (n, w)) (\<lambda>c (d :: rat list). (c, d)) [5] [7] ''ecg''
       = Inl (ValueError Cannot_convert_NaN_to_integer)"
  using estimate_fs_too_short
    [of "[5]" "\<lambda>n w. (n, w)" "\<lambda>c (d :: rat list). (c, d)" "[7]" "''ecg''"]
  by simp

text \<open>
  C3, as the claim states it, fails for the single timestamp 5: the exception raised is
  the \<open>ValueError\<close> of \<open>round\<close> on NaN, which is not an insufficient-data error.
\<close>

theorem estimate_fs_too_short_counterexample:
  "estimate_fs [5] = Inl (ValueError Cannot_convert_NaN_to_integer)
   \<and> (case estimate_fs [5] of Inl e \<Rightarrow> reported_kind e | Inr fs \<Rightarrow> None)
       \<noteq> Some InsufficientDataError"
proof -
  have "estimate_fs [5] = Inl (ValueError Cannot_convert_NaN_to_integer)" by code_simp
  then show ?thesis by simp
qed

text \<open>
  C4, as the code has it. Nothing checks the sign of the mean difference. When the mean
  computed in float64 is negative, the estimation rounds the float64 quotient
  \<open>1 / mean\<close>: it returns an integer that is zero or negative, and the only exception it
  can raise is the \<open>OverflowError\<close> of \<open>round\<close>, when that quotient overflows. When
  the computed mean is exactly zero the quotient is infinite and \<open>round\<close> raises
  \<open>OverflowError\<close>.
\<close>

theorem estimate_fs_nonpositive_mean:
  assumes "np_mean (np_diff ts) = Finite m"
  shows "(m < 0 \<longrightarrow>
            (fl (1 / m) = NInf \<and> estimate_fs ts = Inl OverflowError)
          \<or> (\<exists>r\<le>0. fl (1 / m) = Finite r \<and> estimate_fs ts = Inr (round_half_even r)
                \<and> round_half_even r \<le> 0))
       \<and> (m = 0 \<longrightarrow> estimate_fs ts = Inl OverflowError)"
proof -
  have neg: "(fl (1 / m) = NInf \<and> estimate_fs ts = Inl OverflowError)
          \<or> (\<exists>r\<le>0. fl (1 / m) = Finite r \<and> estimate_fs ts = Inr (round_half_even r)
                \<and> round_half_even r \<le> 0)"
    if "m < 0"
  proof -
    from that have est: "estimate_fs ts = py_round (fl (1 / m))"
      using assms by (simp add: estimate_fs_def)
    from that have "1 / m < 0" by simp
    then consider "fl (1 / m) = NInf" | r where "r \<le> 0" "fl (1 / m) = Finite r"
      using fl_negative by blast
    then show ?thesis
    proof cases
      case 1
      with est show ?thesis by (simp add: py_round_def)
    next
      case 2
      from 2(1) have "round_half_even r \<le> 0" by (rule round_half_even_nonpos)
      with 2 est show ?thesis by (auto simp: py_round_def)
    qed
  qed
  have zero: "estimate_fs ts = Inl OverflowError" if "m = 0"
    using that assms by (simp add: estimate_fs_def py_round_def)
  from neg zero show ?thesis by blast
qed

theorem estimate_fs_nonpositive_mean_witness:
  "np_mean (np_diff [double_0_01, 0]) = Finite (- double_0_01) \<and> - double_0_01 < 0
   \<and> estimate_fs [double_0_01, 0] = Inr (- 100)
   \<and> np_mean (np_diff [0, 1, 0]) = Finite 0
   \<and> estimate_fs [0, 1, 0] = Inl OverflowError"
proof -
  have mean: "np_mean (np_diff [double_0_01, 0]) = Finite (- double_0_01)"
    by code_simp
  have quotient: "fl (1 / - double_0_01) = Finite (- 100)"
    by code_simp
  have zero: "np_mean (np_diff [0, 1, 0]) = Finite 0"
    by code_simp
  have "estimate_fs [double_0_01, 0] = Inr (- 100)"
    using estimate_fs_nonpositive_mean [OF mean] quotient
    by (auto simp: round_half_even_of_int [of "- 100", simplified])
  moreover have "estimate_fs [0, 1, 0] = Inl OverflowError"
    using estimate_fs_nonpositive_mean [OF zero] by simp
  ultimately show ?thesis
    using mean zero by simp
qed

text \<open>
  C4, as the claim states it, fails for the decreasing timestamps 0.01, 0: the mean
  difference is -0.01, and the estimation returns -100 instead of raising.
\<close>

theorem estimate_fs_negative_counterexample:
  "np_mean (np_diff [double_0_01, 0]) = Finite (- double_0_01)
   \<and> \<not> isl (estimate_fs [double_0_01, 0])
   \<and> estimate_fs [double_0_01, 0] = Inr (- 100)"
proof -
  have "np_mean (np_diff [double_0_01, 0]) = Finite (- double_0_01)" by code_simp
  moreover have "estimate_fs [double_0_01, 0] = Inr (- 100)" by code_simp
  ultimately show ?thesis by simp
qed

section \<open>Signal types\<close>

lemma band_unsupported:
  "signal_type \<noteq> ''ecg'' \<Longrightarrow> signal_type \<noteq> ''eeg'' \<Longrightarrow>
   band signal_type = Inl (ValueError Unsupported_signal_type)"
  by (simp add: band_def)

lemma band_ecg: "band ''ecg'' = Inr (1 / 2, 45)"
  by (simp add: band_def)

lemma band_eeg: "band ''eeg'' = Inr (1, 30)"
  by (simp add: band_def)

text \<open>
  C6. For every signal type other than \<open>ecg\<close> and \<open>eeg\<close>, \<open>filter_signal\<close> raises
  the unsupported-signal-type error. It does so whatever \<open>fs\<close>, the order and the scipy
  functions are, so neither the range check nor the coefficients are reached.
\<close>

theorem filter_signal_unsupported:
  "signal_type \<notin> {''ecg'', ''eeg''} \<Longrightarrow>
   filter_signal butter filtfilt data fs signal_type order
     = Inl (ValueError Unsupported_signal_type)"
  by (simp add: filter_signal_def band_unsupported)

theorem filter_signal_unsupported_witness:
  "''emg'' \<notin> {''ecg'', ''eeg''} \<and>
   filter_signal (\<lambda>n w. (n, w)) (\<lambda>c (d :: rat list). d) [1, 2, 3] 0 ''emg'' 4
     = Inl (ValueError Unsupported_signal_type)"
  using filter_signal_unsupported
    [of "''emg''" "\<lambda>n w. (n, w)" "\<lambda>c (d :: rat list). d" "[1, 2, 3]" 0 4]
  by simp

text \<open>
  C10. The comparison is case-sensitive: the unsupported-signal-type error is raised for
  exactly the strings other than the lowercase \<open>ecg\<close> and \<open>eeg\<close>, the uppercase
  spellings among them.
\<close>

theorem filter_signal_case_sensitive:
  "(filter_signal butter filtfilt data fs signal_type order
      = Inl (ValueError Unsupported_signal_type))
     = (signal_type \<noteq> ''ecg'' \<and> signal_type \<noteq> ''eeg'')
   \<and> filter_signal butter filtfilt data fs ''ECG'' order
       = Inl (ValueError Unsupported_signal_type)
   \<and> filter_signal butter filtfilt data fs ''EEG'' order
       = Inl (ValueError Unsupported_signal_type)"
  by (simp add: filter_signal_def band_def Let_def)

theorem filter_signal_case_sensitive_witness:
  "filter_signal (\<lambda>n w. (n, w)) (\<lambda>c (d :: rat list). (c, d)) [1, 2, 3] 100 ''Ecg'' 4
     = Inl (ValueError Unsupported_signal_type)
   \<and> filter_signal (\<lambda>n w. (n, w)) (\<lambda>c (d :: rat list). (c, d)) [1, 2, 3] 100 ''ecg'' 4
       \<noteq> Inl (ValueError Unsupported_signal_type)"
  using filter_signal_case_sensitive
    [of "\<lambda>n w. (n, w)" "\<lambda>c (d :: rat list). (c, d)" "[1, 2, 3]" 100 "''Ecg''" 4]
    filter_signal_case_sensitive
    [of "\<lambda>n w. (n, w)" "\<lambda>c (d :: rat list). (c, d)" "[1, 2, 3]" 100 "''ecg''" 4]
  by simp

section \<open>The range check\<close>

text \<open>
  For a supported signal type and a sampling frequency other than zero, the outcome is
  decided by the check \<open>0 < low < high < 1\<close> alone: the scipy calls when it holds, the
  invalid-range error with \<open>fs\<close>, \<open>lowcut\<close> and \<open>highcut\<close> when it does not.
\<close>

lemma filter_signal_range_check:
  assumes "band signal_type = Inr (lowcut, highcut)" and "fs \<noteq> 0"
  shows "filter_signal butter filtfilt data fs signal_type order =
     (if 0 < lowcut / (of_int fs / 2) \<and> lowcut / (of_int fs / 2) < highcut / (of_int fs / 2)
          \<and> highcut / (of_int fs / 2) < 1
      then Inr (filtfilt (butter order [lowcut / (of_int fs / 2), highcut / (of_int fs / 2)]) data)
      else Inl (ValueError (Invalid_filter_range fs lowcut highcut)))"
  using assms by (simp add: filter_signal_def Let_def)

lemma ecg_range:
  "fs \<noteq> 0 \<Longrightarrow>
   (0 < (1 / 2) / (rat_of_int fs / 2) \<and> (1 / 2) / (rat_of_int fs / 2) < 45 / (rat_of_int fs / 2)
      \<and> 45 / (rat_of_int fs / 2) < 1)
     = (90 < fs)"
  by (auto simp: field_simps)

lemma eeg_range:
  "fs \<noteq> 0 \<Longrightarrow>
   (0 < 1 / (rat_of_int fs / 2) \<and> 1 / (rat_of_int fs / 2) < 30 / (rat_of_int fs / 2)
      \<and> 30 / (rat_of_int fs / 2) < 1)
     = (60 < fs)"
  by (auto simp: field_simps)

lemma filter_signal_ecg:
  assumes nz: "fs \<noteq> 0"
  shows "filter_signal butter filtfilt data fs ''ecg'' order =
     (if 90 < fs
      then Inr (filtfilt (butter order [(1 / 2) / (of_int fs / 2), 45 / (of_int fs / 2)]) data)
      else Inl (ValueError (Invalid_filter_range fs (1 / 2) 45)))"
  unfolding filter_signal_range_check [OF band_ecg nz] ecg_range [OF nz]
  by (rule refl)

lemma filter_signal_eeg:
  assumes nz: "fs \<noteq> 0"
  shows "filter_signal butter filtfilt data fs ''eeg'' order =
     (if 60 < fs
      then Inr (filtfilt (butter order [1 / (of_int fs / 2), 30 / (of_int fs / 2)]) data)
      else Inl (ValueError (Invalid_filter_range fs 1 30)))"
  unfolding filter_signal_range_check [OF band_eeg nz] eeg_range [OF nz]
  by (rule refl)

text \<open>
  A sampling frequency other than zero and below twice \<open>highcut\<close> is rejected with the
  invalid-range error.
\<close>

lemma filter_signal_below_nyquist:
  assumes "band signal_type = Inr (lowcut, highcut)" and "fs \<noteq> 0"
    and "of_int fs < 2 * highcut"
  shows "filter_signal butter filtfilt data fs signal_type order
           = Inl (ValueError (Invalid_filter_range fs lowcut highcut))"
proof -
  from assms(1) consider
      "signal_type = ''ecg''" "lowcut = 1 / 2" "highcut = 45"
    | "signal_type = ''eeg''" "lowcut = 1" "highcut = 30"
    by (auto simp: band_def split: if_splits)
  then show ?thesis
  proof cases
    case 1
    with assms(3) have "\<not> 90 < fs" by simp
    with 1 assms(2) show ?thesis by (simp add: filter_signal_ecg)
  next
    case 2
    with assms(3) have "\<not> 60 < fs" by simp
    with 2 assms(2) show ?thesis by (simp add: filter_signal_eeg)
  qed
qed

lemma filter_signal_ecg_50:
  "filter_signal butter filtfilt data 50 ''ecg'' order
     = Inl (ValueError (Invalid_filter_range 50 (1 / 2) 45))"
  by (simp add: filter_signal_ecg)

lemma filter_signal_ecg_100:
  "filter_signal butter filtfilt data 100 ''ecg'' order
     = Inr (filtfilt (butter order [1 / 100, 9 / 10]) data)"
  by (simp add: filter_signal_ecg)

text \<open>
  C2, where the code departs from it. At \<open>fs = 0\<close>, which is below twice \<open>highcut\<close>,
  the division \<open>lowcut / nyq\<close> raises \<open>ZeroDivisionError\<close> before the range check is
  reached, so no invalid-range error is raised. The estimation returns this \<open>fs\<close> for
  timestamps three seconds apart, and the run then ends in \<open>ZeroDivisionError\<close>.
\<close>

theorem filter_signal_fs_zero:
  "filter_signal butter filtfilt data 0 ''ecg'' order = Inl ZeroDivisionError
   \<and> filter_signal butter filtfilt data 0 ''eeg'' order = Inl ZeroDivisionError
   \<and> filter_signal butter filtfilt data 0 ''ecg'' order
       \<noteq> Inl (ValueError (Invalid_filter_range 0 (1 / 2) 45))
   \<and> estimate_fs [0, 3, 6] = Inr 0
   \<and> estimate_and_filter butter filtfilt [0, 3, 6] data ''ecg'' = Inl ZeroDivisionError"
proof -
  have zero: "filter_signal butter filtfilt data 0 st n = Inl ZeroDivisionError"
    if "st = ''ecg'' \<or> st = ''eeg''" for st n
    using that by (auto simp: filter_signal_def band_def)
  have est: "estimate_fs [0, 3, 6] = Inr 0"
    by code_simp
  from zero est show ?thesis
    by (simp add: estimate_and_filter_def)
qed

section \<open>The presets\<close>

text \<open>
  C5, as the code has it. The band edges are constants of the signal type: \<open>ecg\<close> has
  (0.5, 45.0) and \<open>eeg\<close> has (1.0, 30.0), in the arguments of \<open>butter\<close> and in the
  invalid-range error alike, whatever the data, the sampling frequency and the order are.
  The order is not part of the preset: it is the parameter \<open>order\<close>, passed on to
  \<open>butter\<close> as it is. The call in \<open>main\<close> leaves it out, so there it is the default 4.
\<close>

theorem preset_bands:
  "(fs \<noteq> 0 \<longrightarrow>
      filter_signal butter filtfilt data fs ''ecg'' order =
        (if 90 < fs
         then Inr (filtfilt (butter order [(1 / 2) / (of_int fs / 2), 45 / (of_int fs / 2)]) data)
         else Inl (ValueError (Invalid_filter_range fs (1 / 2) 45))))
   \<and> (fs \<noteq> 0 \<longrightarrow>
      filter_signal butter filtfilt data fs ''eeg'' order =
        (if 60 < fs
         then Inr (filtfilt (butter order [1 / (of_int fs / 2), 30 / (of_int fs / 2)]) data)
         else Inl (ValueError (Invalid_filter_range fs 1 30))))
   \<and> (estimate_fs time_sec = Inr fs \<longrightarrow> 90 < fs \<longrightarrow>
        estimate_and_filter butter filtfilt time_sec data ''ecg''
          = Inr (fs, filtfilt (butter 4 [(1 / 2) / (of_int fs / 2), 45 / (of_int fs / 2)]) data))"
proof -
  have run: "estimate_and_filter butter filtfilt time_sec data ''ecg''
          = Inr (fs, filtfilt (butter 4 [(1 / 2) / (of_int fs / 2), 45 / (of_int fs / 2)]) data)"
    if est: "estimate_fs time_sec = Inr fs" and valid: "90 < fs"
  proof -
    from valid have nz: "fs \<noteq> 0" by simp
    from valid have "filter_signal butter filtfilt data fs ''ecg'' default_order
        = Inr (filtfilt (butter 4 [(1 / 2) / (of_int fs / 2), 45 / (of_int fs / 2)]) data)"
      unfolding default_order_def filter_signal_ecg [OF nz] by simp
    with est show ?thesis
      by (simp only: estimate_and_filter_def sum.case)
  qed
  from filter_signal_ecg [of fs butter filtfilt data order]
    filter_signal_eeg [of fs butter filtfilt data order] run
  show ?thesis by blast
qed

theorem preset_bands_witness:
  "(100 :: int) \<noteq> 0 \<and> (90 :: int) < 100
   \<and> estimate_fs [0, double_0_01, double_0_02, double_0_03] = Inr 100
   \<and> filter_signal (\<lambda>n w. (n, w)) (\<lambda>c (d :: rat list). (c, d)) [1, 2, 3] 100 ''ecg'' 2
       = Inr ((2, [1 / 100, 9 / 10]), [1, 2, 3])
   \<and> filter_signal (\<lambda>n w. (n, w)) (\<lambda>c (d :: rat list). (c, d)) [1, 2, 3] 100 ''eeg'' 2
       = Inr ((2, [1 / 50, 3 / 5]), [1, 2, 3])
   \<and> estimate_and_filter (\<lambda>n w. (n, w)) (\<lambda>c (d :: rat list). (c, d))
         [0, double_0_01, double_0_02, double_0_03] [1, 2, 3] ''ecg''
       = Inr (100, (4, [1 / 100, 9 / 10]), [1, 2, 3])"
proof -
  have est: "estimate_fs [0, double_0_01, double_0_02, double_0_03] = Inr 100"
    by code_simp
  with preset_bands
    [of 100 "\<lambda>n w. (n, w)" "\<lambda>c (d :: rat list). (c, d)" "[1, 2, 3]" 2
        "[0, double_0_01, double_0_02, double_0_03]"]
  show ?thesis by simp
qed

text \<open>
  C5, as the claim states it, fails for a call with another order: with \<open>order = 2\<close>
  and \<open>ecg\<close> the filter is designed with order 2, not 4.
\<close>

theorem filter_signal_order_counterexample:
  "filter_signal (\<lambda>n w. (n, w)) (\<lambda>c (d :: rat list). (c, d)) [1, 2, 3] 100 ''ecg'' 2
     = Inr ((2, [1 / 100, 9 / 10]), [1, 2, 3])
   \<and> filter_signal (\<lambda>n w. (n, w)) (\<lambda>c (d :: rat list). (c, d)) [1, 2, 3] 100 ''ecg'' 2
     \<noteq> Inr ((4, [1 / 100, 9 / 10]), [1, 2, 3])"
  by (simp add: filter_signal_ecg)

end
